theory Spec2Isabelle
  imports Complex_Main
begin

section \<open>Arrays and the linear-algebra primitives used by the M-step\<close>

text \<open>
  A floating-point number is a real number or one of the three non-finite values
  \<open>inf\<close>, \<open>-inf\<close> and \<open>nan\<close>. Arithmetic on the reals is exact: rounding, overflow
  and the sign of zero are not part of the model (a non-zero number divided by zero gives
  the infinity of its own sign). The non-finite values follow the IEEE rules that numpy
  applies: an operation never raises, it returns \<open>inf\<close>, \<open>-inf\<close> or \<open>nan\<close>, and
  every comparison with \<open>nan\<close> is false.
\<close>

datatype float = Fin real | PInf | NInf | NaN

instantiation float :: "{zero, one, plus, uminus, minus, times, inverse, abs, ord}"
begin

definition zero_float :: float where
  "0 = Fin 0"

definition one_float :: float where
  "1 = Fin 1"

fun plus_float :: "float \<Rightarrow> float \<Rightarrow> float" where
  "Fin a + Fin b = Fin (a + b)"
| "NaN + y = NaN"
| "x + NaN = NaN"
| "PInf + NInf = NaN"
| "NInf + PInf = NaN"
| "PInf + y = PInf"
| "x + PInf = PInf"
| "NInf + y = NInf"
| "x + NInf = NInf"

fun uminus_float :: "float \<Rightarrow> float" where
  "- Fin a = Fin (- a)"
| "- PInf = NInf"
| "- NInf = PInf"
| "- NaN = NaN"

definition minus_float :: "float \<Rightarrow> float \<Rightarrow> float" where
  "x - y = x + - (y :: float)"

fun times_float :: "float \<Rightarrow> float \<Rightarrow> float" where
  "Fin a * Fin b = Fin (a * b)"
| "NaN * y = NaN"
| "x * NaN = NaN"
| "PInf * Fin b = (if b = 0 then NaN else if 0 < b then PInf else NInf)"
| "NInf * Fin b = (if b = 0 then NaN else if 0 < b then NInf else PInf)"
| "Fin a * PInf = (if a = 0 then NaN else if 0 < a then PInf else NInf)"
| "Fin a * NInf = (if a = 0 then NaN else if 0 < a then NInf else PInf)"
| "PInf * PInf = PInf"
| "PInf * NInf = NInf"
| "NInf * PInf = NInf"
| "NInf * NInf = PInf"

fun divide_float :: "float \<Rightarrow> float \<Rightarrow> float" where
  "Fin a div Fin b =
     (if b = 0 then (if a = 0 then NaN else if 0 < a then PInf else NInf) else Fin (a / b))"
| "NaN div y = NaN"
| "x div NaN = NaN"
| "Fin a div PInf = Fin 0"
| "Fin a div NInf = Fin 0"
| "PInf div Fin b = (if 0 \<le> b then PInf else NInf)"
| "NInf div Fin b = (if 0 \<le> b then NInf else PInf)"
| "PInf div PInf = NaN"
| "PInf div NInf = NaN"
| "NInf div PInf = NaN"
| "NInf div NInf = NaN"

definition inverse_float :: "float \<Rightarrow> float" where
  "inverse x = Fin 1 div (x :: float)"

fun abs_float :: "float \<Rightarrow> float" where
  "\<bar>Fin a\<bar> = Fin \<bar>a\<bar>"
| "\<bar>PInf\<bar> = PInf"
| "\<bar>NInf\<bar> = PInf"
| "\<bar>NaN\<bar> = NaN"

fun less_eq_float :: "float \<Rightarrow> float \<Rightarrow> bool" where
  "Fin a \<le> Fin b \<longleftrightarrow> a \<le> b"
| "NaN \<le> y \<longleftrightarrow> False"
| "x \<le> NaN \<longleftrightarrow> False"
| "NInf \<le> y \<longleftrightarrow> True"
| "x \<le> PInf \<longleftrightarrow> True"
| "PInf \<le> y \<longleftrightarrow> False"
| "x \<le> NInf \<longleftrightarrow> False"

fun less_float :: "float \<Rightarrow> float \<Rightarrow> bool" where
  "Fin a < Fin b \<longleftrightarrow> a < b"
| "NaN < y \<longleftrightarrow> False"
| "x < NaN \<longleftrightarrow> False"
| "PInf < y \<longleftrightarrow> False"
| "x < NInf \<longleftrightarrow> False"
| "NInf < y \<longleftrightarrow> True"
| "x < PInf \<longleftrightarrow> True"

instance ..

end

text \<open>Addition is associative and commutative also on the non-finite values, so that
  sums over index sets are meaningful.\<close>

instance float :: comm_monoid_add
proof (standard, goal_cases)
  case (1 x y z)
  show ?case by (cases x; cases y; cases z; simp)
next
  case (2 x y)
  show ?case by (cases x; cases y; simp)
next
  case (3 x)
  show ?case by (cases x; simp add: zero_float_def)
qed

instance float :: numeral ..

fun np_log :: "float \<Rightarrow> float" where
  "np_log (Fin a) = (if 0 < a then Fin (ln a) else if a = 0 then NInf else NaN)"
| "np_log PInf = PInf"
| "np_log NInf = NaN"
| "np_log NaN = NaN"

definition isfinite :: "float \<Rightarrow> bool" where
  "isfinite x = (case x of Fin a \<Rightarrow> True | _ \<Rightarrow> False)"

text \<open>
  A one-dimensional array is the list of its entries, a two-dimensional array the list
  of its rows; arrays with an empty axis are not distinguished by their other axis.
\<close>

type_synonym vec = "float list"
type_synonym mat = "float list list"

datatype ndarray = Vec vec | Mat mat

datatype error =
    ValueError | AssertionError | AttributeError | IndexError | LinAlgError

definition bindE :: "error + 'a \<Rightarrow> ('a \<Rightarrow> error + 'b) \<Rightarrow> error + 'b" where
  "bindE m f = (case m of Inl e \<Rightarrow> Inl e | Inr x \<Rightarrow> f x)"

fun mapE :: "('a \<Rightarrow> error + 'b) \<Rightarrow> 'a list \<Rightarrow> error + 'b list" where
  "mapE f [] = Inr []"
| "mapE f (x # xs) = bindE (f x) (\<lambda>y. bindE (mapE f xs) (\<lambda>ys. Inr (y # ys)))"

definition nrows :: "mat \<Rightarrow> nat" where
  "nrows m = length m"

definition ncols :: "mat \<Rightarrow> nat" where
  "ncols m = (case m of [] \<Rightarrow> 0 | r # _ \<Rightarrow> length r)"

definition is_mat :: "nat \<Rightarrow> nat \<Rightarrow> mat \<Rightarrow> bool" where
  "is_mat r c m \<longleftrightarrow> length m = r \<and> list_all (\<lambda>row. length row = c) m"

definition col :: "mat \<Rightarrow> nat \<Rightarrow> vec" where
  "col m j = map (\<lambda>r. r ! j) m"

text \<open>\<open>np.transpose\<close>: swaps the axes of a two-dimensional array and returns a
  one-dimensional array as it is.\<close>

definition np_transpose :: "mat \<Rightarrow> mat" where
  "np_transpose m = map (col m) [0..<ncols m]"

definition np_transpose1 :: "vec \<Rightarrow> vec" where
  "np_transpose1 v = v"

definition dotv :: "vec \<Rightarrow> vec \<Rightarrow> float" where
  "dotv u v = sum_list (map2 (*) u v)"

text \<open>\<open>np.dot\<close> on two matrices, on a matrix and a vector, and on two vectors; a
  mismatch of the contracted axes raises ValueError.\<close>

definition np_dot :: "mat \<Rightarrow> mat \<Rightarrow> error + mat" where
  "np_dot a b =
     (if ncols a = nrows b
      then Inr (map (\<lambda>r. map (\<lambda>j. dotv r (col b j)) [0..<ncols b]) a)
      else Inl ValueError)"

definition np_dot_mv :: "mat \<Rightarrow> vec \<Rightarrow> error + vec" where
  "np_dot_mv a v =
     (if ncols a = length v then Inr (map (\<lambda>r. dotv r v) a) else Inl ValueError)"

definition np_dot_vv :: "vec \<Rightarrow> vec \<Rightarrow> error + float" where
  "np_dot_vv u v = (if length u = length v then Inr (dotv u v) else Inl ValueError)"

text \<open>Elementwise operations follow the broadcasting rule: two axes fit when their
  lengths are equal or one of them is 1.\<close>

definition bc_vec :: "(float \<Rightarrow> float \<Rightarrow> float) \<Rightarrow> vec \<Rightarrow> vec \<Rightarrow> error + vec" where
  "bc_vec f u v =
     (if length u = length v then Inr (map2 f u v)
      else if length u = 1 then Inr (map (f (hd u)) v)
      else if length v = 1 then Inr (map (\<lambda>x. f x (hd v)) u)
      else Inl ValueError)"

definition bc_mat :: "(float \<Rightarrow> float \<Rightarrow> float) \<Rightarrow> mat \<Rightarrow> mat \<Rightarrow> error + mat" where
  "bc_mat f a b =
     (if length a = length b then mapE (\<lambda>(u, v). bc_vec f u v) (zip a b)
      else if length a = 1 then mapE (bc_vec f (hd a)) b
      else if length b = 1 then mapE (\<lambda>u. bc_vec f u (hd b)) a
      else Inl ValueError)"

definition np_subtract :: "mat \<Rightarrow> mat \<Rightarrow> error + mat" where
  "np_subtract a b = bc_mat (-) a b"

definition np_multiply :: "mat \<Rightarrow> mat \<Rightarrow> error + mat" where
  "np_multiply a b = bc_mat (*) a b"

text \<open>Adding an array of one or two dimensions to a matrix: a one-dimensional array
  broadcasts as a single row.\<close>

definition np_add :: "mat \<Rightarrow> ndarray \<Rightarrow> error + mat" where
  "np_add a b = (case b of Vec v \<Rightarrow> bc_mat (+) a [v] | Mat m \<Rightarrow> bc_mat (+) a m)"

definition scale_vec :: "float \<Rightarrow> vec \<Rightarrow> vec" where
  "scale_vec c v = map (\<lambda>x. c * x) v"

definition scale_mat :: "float \<Rightarrow> mat \<Rightarrow> mat" where
  "scale_mat c m = map (scale_vec c) m"

definition np_tile :: "vec \<Rightarrow> nat \<Rightarrow> mat" where
  "np_tile v n = replicate n v"

definition np_sum_axis0 :: "mat \<Rightarrow> vec" where
  "np_sum_axis0 m = map (\<lambda>j. sum_list (col m j)) [0..<ncols m]"

definition np_sum_axis1 :: "mat \<Rightarrow> vec" where
  "np_sum_axis1 m = map sum_list m"

definition np_divide :: "vec \<Rightarrow> float \<Rightarrow> vec" where
  "np_divide v c = map (\<lambda>x. x / c) v"

definition np_trace :: "mat \<Rightarrow> float" where
  "np_trace m = sum_list (map (\<lambda>i. m ! i ! i) [0..<min (nrows m) (ncols m)])"

definition np_diag :: "vec \<Rightarrow> mat" where
  "np_diag v =
     map (\<lambda>i. map (\<lambda>j. if i = j then v ! i else 0) [0..<length v]) [0..<length v]"

definition np_eye :: "nat \<Rightarrow> mat" where
  "np_eye n = map (\<lambda>i. map (\<lambda>j. if i = j then 1 else 0) [0..<n]) [0..<n]"

definition np_ones :: "nat \<Rightarrow> vec" where
  "np_ones n = replicate n 1"

definition np_zeros :: "nat \<Rightarrow> nat \<Rightarrow> mat" where
  "np_zeros r c = replicate r (replicate c 0)"

text \<open>\<open>C[D - 1] = x\<close>: with \<open>D = 0\<close> the index is \<open>-1\<close> on an empty array.\<close>

definition set_last :: "vec \<Rightarrow> nat \<Rightarrow> float \<Rightarrow> error + vec" where
  "set_last c d x =
     (if d = 0 then (if c = [] then Inl IndexError else Inr (c[length c - 1 := x]))
      else if d - 1 < length c then Inr (c[d - 1 := x])
      else Inl IndexError)"

definition drop_col :: "nat \<Rightarrow> vec \<Rightarrow> vec" where
  "drop_col j r = take j r @ drop (Suc j) r"

text \<open>The determinant, by expansion along the first row. On a matrix with non-finite
  entries the value is the one this expansion gives under the arithmetic above.\<close>

function det :: "mat \<Rightarrow> float" where
  "det [] = 1"
| "det (r # rs) =
     sum_list (map (\<lambda>j. (if even j then r ! j else - (r ! j)) * det (map (drop_col j) rs))
                 [0..<length r])"
  by pat_completeness auto
termination
  by (relation "measure length") auto

definition np_linalg_det :: "mat \<Rightarrow> error + float" where
  "np_linalg_det m = (if is_mat (nrows m) (nrows m) m then Inr (det m) else Inl LinAlgError)"

definition finite_mat :: "mat \<Rightarrow> bool" where
  "finite_mat m = list_all (list_all isfinite) m"

definition orthogonal :: "nat \<Rightarrow> mat \<Rightarrow> bool" where
  "orthogonal n m \<longleftrightarrow>
     is_mat n n m \<and> finite_mat m \<and> np_dot m (np_transpose m) = Inr (np_eye n)"

text \<open>What \<open>np.linalg.svd(A, full_matrices=True)\<close> promises of its result
  \<open>(U, S, Vh)\<close> on a square matrix: orthogonal factors with finite entries, non-negative
  singular values and \<open>A = U \<cdot> diag S \<cdot> Vh\<close>. The third component is the transposed right factor;
  the source names it \<open>V\<close>.\<close>

definition svd_result :: "nat \<Rightarrow> mat \<Rightarrow> mat \<times> vec \<times> mat \<Rightarrow> bool" where
  "svd_result n a usv \<longleftrightarrow>
     (case usv of (u, sv, vh) \<Rightarrow>
        orthogonal n u \<and> orthogonal n vh \<and> length sv = n \<and> list_all (\<lambda>x. 0 \<le> x) sv \<and>
        bindE (np_dot u (np_diag sv)) (\<lambda>us. np_dot us vh) = Inr a)"

section \<open>The registration state\<close>

text \<open>
  Modelled from the spec: the base class \<open>EMRegistration\<close> (module \<open>emregistration\<close>) is
  not among the sources. Its state is the target cloud \<open>X\<close> (\<open>N\<close> by \<open>D\<close>), the source
  cloud \<open>Y\<close> (\<open>M\<close> by \<open>D\<close>), the transformed cloud \<open>TY\<close>, the correspondence matrix \<open>P\<close>
  with its aggregates \<open>P1\<close>, \<open>Pt1\<close>, \<open>PX\<close> and \<open>Np\<close>, the variance \<open>sigma2\<close>, the
  objective \<open>q\<close>, its change \<open>diff\<close> and the convergence threshold \<open>tolerance\<close>.
\<close>

record em_registration =
  X :: mat
  Y :: mat
  TY :: mat
  N :: nat
  M :: nat
  D :: nat
  P :: mat
  P1 :: vec
  Pt1 :: vec
  PX :: mat
  Np :: float
  sigma2 :: float
  q :: float
  diff :: float
  tolerance :: float

text \<open>The attributes \<open>X_hat\<close>, \<open>YPY\<close> and \<open>A\<close> do not exist before the first call
  of \<open>update_transform\<close>: they are \<open>None\<close> until then. The translation is kept with
  its number of dimensions.\<close>

record rigid_registration = em_registration +
  R :: mat
  t :: ndarray
  s :: float
  do_scale :: bool
  do_rot :: bool
  do_trans :: bool
  X_hat :: "mat option"
  YPY :: "float option"
  A :: "mat option"

section \<open>Construction\<close>

text \<open>The constructor, after the base class has run (\<open>super\<close> is its outcome). The
  positive-semi-definiteness test of module \<open>utility\<close> is a parameter. A scale that is
  not a number is excluded by the type.\<close>

definition init ::
  "(mat \<Rightarrow> bool) \<Rightarrow> ndarray option \<Rightarrow> ndarray option \<Rightarrow> float option \<Rightarrow>
   bool \<Rightarrow> bool \<Rightarrow> bool \<Rightarrow> error + em_registration \<Rightarrow> error + rigid_registration" where
  "init is_positive_semi_definite R0 t0 s0 scale0 rot0 trans0 super =
     bindE super (\<lambda>base.
       if D base \<noteq> 2 \<and> D base \<noteq> 3 then Inl ValueError
       else if (case R0 of None \<Rightarrow> False
                | Some (Vec v) \<Rightarrow> True
                | Some (Mat m) \<Rightarrow> nrows m \<noteq> D base \<or> ncols m \<noteq> D base \<or>
                                 \<not> is_positive_semi_definite m)
       then Inl ValueError
       else if (case t0 of None \<Rightarrow> False
                | Some (Vec v) \<Rightarrow> True
                | Some (Mat m) \<Rightarrow> nrows m \<noteq> 1 \<or> ncols m \<noteq> D base)
       then Inl ValueError
       else if (case s0 of None \<Rightarrow> False | Some c \<Rightarrow> c \<le> 0) then Inl ValueError
       else if \<not> (scale0 \<or> rot0 \<or> trans0) then Inl AssertionError
       else Inr (em_registration.extend base
              (rigid_registration.fields
                 (case R0 of Some (Mat m) \<Rightarrow> m | _ \<Rightarrow> np_eye (D base))
                 (case t0 of Some a \<Rightarrow> a | None \<Rightarrow> Mat (np_zeros 1 (D base)))
                 (case s0 of Some c \<Rightarrow> c | None \<Rightarrow> 1)
                 scale0 rot0 trans0 None None None)))"

section \<open>The rigid transform estimator\<close>

definition muX :: "rigid_registration \<Rightarrow> error + vec" where
  "muX st = Inr (np_divide (np_sum_axis0 (PX st)) (Np st))"

definition muY :: "rigid_registration \<Rightarrow> error + vec" where
  "muY st =
     bindE (np_dot (np_transpose (P st)) (Y st)) (\<lambda>py.
       Inr (np_divide (np_sum_axis0 py) (Np st)))"

definition centred_target :: "rigid_registration \<Rightarrow> vec \<Rightarrow> error + mat" where
  "centred_target st mx = np_subtract (X st) (np_tile mx (N st))"

definition centred_source :: "rigid_registration \<Rightarrow> vec \<Rightarrow> error + mat" where
  "centred_source st my = np_subtract (Y st) (np_tile my (M st))"

definition weighted_sq_norms :: "vec \<Rightarrow> mat \<Rightarrow> error + float" where
  "weighted_sq_norms w c =
     bindE (np_multiply c c) (\<lambda>cc. np_dot_vv (np_transpose1 w) (np_sum_axis1 cc))"

definition cross_covariance :: "rigid_registration \<Rightarrow> mat \<Rightarrow> mat \<Rightarrow> error + mat" where
  "cross_covariance st xh yh =
     bindE (np_dot (np_transpose xh) (np_transpose (P st))) (\<lambda>a0. np_dot a0 yh)"

definition correction :: "nat \<Rightarrow> mat \<Rightarrow> mat \<Rightarrow> error + vec" where
  "correction d u v =
     bindE (np_dot u v) (\<lambda>uv. bindE (np_linalg_det uv) (\<lambda>x. set_last (np_ones d) d x))"

definition rotation :: "mat \<Rightarrow> vec \<Rightarrow> mat \<Rightarrow> error + mat" where
  "rotation u c v =
     bindE (np_dot u (np_diag c)) (\<lambda>uc. bindE (np_dot uc v) (\<lambda>ucv. Inr (np_transpose ucv)))"

definition scale_of :: "mat \<Rightarrow> mat \<Rightarrow> float \<Rightarrow> error + float" where
  "scale_of a r ypy =
     bindE (np_dot (np_transpose a) (np_transpose r)) (\<lambda>ar. Inr (np_trace ar / ypy))"

definition translation :: "vec \<Rightarrow> vec \<Rightarrow> float \<Rightarrow> mat \<Rightarrow> error + ndarray" where
  "translation mx my c r =
     bindE (np_dot_mv (np_transpose r) (np_transpose1 my)) (\<lambda>rm.
     bindE (bc_vec (-) (np_transpose1 mx) (scale_vec c rm)) (\<lambda>v. Inr (Vec v)))"

definition update_transform ::
  "(mat \<Rightarrow> error + mat \<times> vec \<times> mat) \<Rightarrow> rigid_registration \<Rightarrow> error + rigid_registration" where
  "update_transform svd st =
     bindE (muX st) (\<lambda>mx.
     bindE (muY st) (\<lambda>my.
     bindE (centred_target st mx) (\<lambda>xh.
     bindE (centred_source st my) (\<lambda>yh.
     bindE (weighted_sq_norms (P1 st) yh) (\<lambda>ypy.
     bindE (cross_covariance st xh yh) (\<lambda>a.
     bindE (svd a) (\<lambda>(u, sv, v).
     bindE (correction (D st) u v) (\<lambda>c.
     bindE (if do_rot st then rotation u c v else Inr (R st)) (\<lambda>r.
     bindE (if do_scale st then scale_of a r ypy else Inr (s st)) (\<lambda>sc.
     bindE (if do_trans st then translation mx my sc r else Inr (t st)) (\<lambda>tr.
       Inr (st\<lparr>X_hat := Some xh, YPY := Some ypy, A := Some a,
                R := r, s := sc, t := tr\<rparr>))))))))))))"

fun update_transform_n ::
  "(mat \<Rightarrow> error + mat \<times> vec \<times> mat) \<Rightarrow> nat \<Rightarrow> rigid_registration \<Rightarrow>
   error + rigid_registration" where
  "update_transform_n svd 0 st = Inr st"
| "update_transform_n svd (Suc n) st =
     bindE (update_transform svd st) (update_transform_n svd n)"

section \<open>The transform applier\<close>

definition apply_transform :: "rigid_registration \<Rightarrow> mat \<Rightarrow> error + mat" where
  "apply_transform st cloud =
     bindE (np_dot cloud (R st)) (\<lambda>yr. np_add (scale_mat (s st) yr) (t st))"

definition transform_point_cloud ::
  "rigid_registration \<Rightarrow> mat option \<Rightarrow> error + rigid_registration \<times> mat option" where
  "transform_point_cloud st arg =
     (case arg of
        None \<Rightarrow> bindE (apply_transform st (Y st)) (\<lambda>ty. Inr (st\<lparr>TY := ty\<rparr>, None))
      | Some cloud \<Rightarrow> bindE (apply_transform st cloud) (\<lambda>ty. Inr (st, Some ty)))"

section \<open>The variance and objective updater\<close>

definition attr :: "'a option \<Rightarrow> error + 'a" where
  "attr x = (case x of None \<Rightarrow> Inl AttributeError | Some v \<Rightarrow> Inr v)"

definition trAR :: "rigid_registration \<Rightarrow> error + float" where
  "trAR st = bindE (attr (A st)) (\<lambda>a. bindE (np_dot a (R st)) (\<lambda>ar. Inr (np_trace ar)))"

definition xPx :: "rigid_registration \<Rightarrow> error + float" where
  "xPx st = bindE (attr (X_hat st)) (\<lambda>xh. weighted_sq_norms (Pt1 st) xh)"

text \<open>The body of \<open>update_variance\<close> in two parts: the assignments to \<open>q\<close>, \<open>diff\<close>
  and \<open>sigma2\<close>, and the floor that follows them. None of the divisions and neither the
  logarithm raises: on a zero divisor or a non-positive argument they give a non-finite
  value, and the comparison of the floor is false on \<open>nan\<close>.\<close>

definition assign_variance :: "rigid_registration \<Rightarrow> error + rigid_registration" where
  "assign_variance st =
     (let qprev = q st in
      bindE (trAR st) (\<lambda>tr.
      bindE (xPx st) (\<lambda>xp.
      bindE (attr (YPY st)) (\<lambda>ypy.
      let st1 = st\<lparr>q := (xp - 2 * s st * tr + s st * s st * ypy) / (2 * sigma2 st)
                          + Fin (real (D st)) * Np st / 2 * np_log (sigma2 st)\<rparr>;
          st2 = st1\<lparr>diff := \<bar>q st1 - qprev\<bar>\<rparr>
      in Inr (st2\<lparr>sigma2 := (xp - s st2 * tr) / (Np st2 * Fin (real (D st2)))\<rparr>)))))"

definition floor_variance :: "rigid_registration \<Rightarrow> rigid_registration" where
  "floor_variance st = (if sigma2 st \<le> 0 then st\<lparr>sigma2 := tolerance st / 10\<rparr> else st)"

definition update_variance :: "rigid_registration \<Rightarrow> error + rigid_registration" where
  "update_variance st = bindE (assign_variance st) (\<lambda>st3. Inr (floor_variance st3))"

definition get_registration_parameters :: "rigid_registration \<Rightarrow> float \<times> mat \<times> ndarray" where
  "get_registration_parameters st = (s st, R st, t st)"

section \<open>Well-formed states\<close>

definition wf :: "rigid_registration \<Rightarrow> bool" where
  "wf st \<longleftrightarrow>
     (D st = 2 \<or> D st = 3) \<and> 0 < N st \<and> 0 < M st \<and>
     is_mat (N st) (D st) (X st) \<and> is_mat (M st) (D st) (Y st) \<and>
     is_mat (M st) (N st) (P st) \<and> length (P1 st) = M st \<and> length (Pt1 st) = N st \<and>
     PX st \<noteq> [] \<and> is_mat (length (PX st)) (D st) (PX st) \<and>
     is_mat (D st) (D st) (R st)"

section \<open>A worked registration step\<close>

text \<open>Four source points, and the target obtained from them by a quarter turn, a scaling
  by 2 and a shift by \<open>(3, 5)\<close>, with each source point matched to its image.\<close>

definition example_base :: em_registration where
  "example_base =
     \<lparr>X = [[3, 7], [3, 3], [1, 5], [5, 5]], Y = [[1, 0], [- 1, 0], [0, 1], [0, - 1]],
      TY = [[1, 0], [- 1, 0], [0, 1], [0, - 1]], N = 4, M = 4, D = 2,
      P = [[1, 0, 0, 0], [0, 1, 0, 0], [0, 0, 1, 0], [0, 0, 0, 1]],
      P1 = [1, 1, 1, 1], Pt1 = [1, 1, 1, 1],
      PX = [[3, 7], [3, 3], [1, 5], [5, 5]], Np = 4, sigma2 = 1, q = 0, diff = 0,
      tolerance = 1 / 1000\<rparr>"

definition example_state :: "bool \<Rightarrow> bool \<Rightarrow> bool \<Rightarrow> rigid_registration" where
  "example_state ds dr dt =
     em_registration.extend example_base
       (rigid_registration.fields (np_eye 2) (Mat (np_zeros 1 2)) 1 ds dr dt None None None)"

definition example_svd :: "mat \<Rightarrow> error + mat \<times> vec \<times> mat" where
  "example_svd a = Inr ([[0, - 1], [1, 0]], [4, 4], [[1, 0], [0, 1]])"

definition example_updated :: rigid_registration where
  "example_updated =
     (example_state True True True)
       \<lparr>X_hat := Some [[0, 2], [0, - 2], [- 2, 0], [2, 0]], YPY := Some 4,
        A := Some [[0, - 4], [4, 0]], R := [[0, 1], [- 1, 0]], s := 2, t := Vec [3, 5]\<rparr>"


definition example_translated :: rigid_registration where
  "example_translated =
     (example_state False False True)
       \<lparr>X_hat := Some [[0, 2], [0, - 2], [- 2, 0], [2, 0]], YPY := Some 4,
        A := Some [[0, - 4], [4, 0]], t := Vec [3, 5]\<rparr>"

definition coincident_state :: rigid_registration where
  "coincident_state =
     (example_state True True True)\<lparr>Y := [[1, 1], [1, 1], [1, 1], [1, 1]]\<rparr>"

definition identity_svd :: "mat \<Rightarrow> error + mat \<times> vec \<times> mat" where
  "identity_svd a = Inr ([[1, 0], [0, 1]], [0, 0], [[1, 0], [0, 1]])"

definition coincident_updated :: rigid_registration where
  "coincident_updated =
     coincident_state
       \<lparr>X_hat := Some [[0, 2], [0, - 2], [- 2, 0], [2, 0]], YPY := Some 0,
        A := Some [[0, 0], [0, 0]], R := [[1, 0], [0, 1]], s := NaN, t := Vec [NaN, NaN]\<rparr>"



section \<open>Floating-point arithmetic\<close>

lemma numeral_float: "numeral k = Fin (numeral k)"
proof (induction k)
  case One
  show ?case by (simp add: one_float_def)
next
  case (Bit0 k)
  have "numeral (num.Bit0 k) = Fin (numeral k) + Fin (numeral k)"
    by (simp only: numeral_Bit0 Bit0.IH)
  also have "\<dots> = Fin (numeral (num.Bit0 k))" by (simp add: numeral_Bit0)
  finally show ?case .
next
  case (Bit1 k)
  have "numeral (num.Bit1 k) = Fin (numeral k) + Fin (numeral k) + Fin 1"
    by (simp only: numeral_Bit1 Bit1.IH one_float_def)
  also have "\<dots> = Fin (numeral (num.Bit1 k))" by (simp add: numeral_Bit1)
  finally show ?case .
qed

lemma float_simps [simp]:
  "(0::float) = Fin 0" "(1::float) = Fin 1" "x - y = x + - (y::float)"
  by (simp_all add: zero_float_def one_float_def minus_float_def)

section \<open>Basic facts about the array operations\<close>

lemma bindE_simps [simp]: "bindE (Inr x) f = f x" "bindE (Inl e) f = Inl e"
  by (simp_all add: bindE_def)

lemma bindE_Inr_iff: "bindE m f = Inr y \<longleftrightarrow> (\<exists>x. m = Inr x \<and> f x = Inr y)"
  by (cases m) simp_all

lemma is_mat_length: "is_mat r c m \<Longrightarrow> length m = r"
  by (simp add: is_mat_def)

lemma is_mat_row: "is_mat r c m \<Longrightarrow> i < r \<Longrightarrow> length (m ! i) = c"
  by (simp add: is_mat_def list_all_length)

lemma is_mat_ncols: "is_mat r c m \<Longrightarrow> 0 < r \<Longrightarrow> ncols m = c"
  by (cases m) (auto simp: is_mat_def ncols_def)

lemma is_matI: "length m = r \<Longrightarrow> (\<And>i. i < r \<Longrightarrow> length (m ! i) = c) \<Longrightarrow> is_mat r c m"
  by (simp add: is_mat_def list_all_length)

lemma dotv_sum: "length u = n \<Longrightarrow> length v = n \<Longrightarrow> dotv u v = (\<Sum>i<n. u ! i * v ! i)"
proof -
  assume a: "length u = n" "length v = n"
  have "dotv u v = (\<Sum>i = 0..<length (map2 (*) u v). map2 (*) u v ! i)"
    unfolding dotv_def by (rule sum_list_sum_nth)
  also have "\<dots> = (\<Sum>i = 0..<n. u ! i * v ! i)"
    using a by (intro sum.cong) auto
  finally show ?thesis by (simp add: atLeast0LessThan)
qed

lemma sum_list_upt: "sum_list (map f [0..<n]) = (\<Sum>i<n. f i)"
  by (simp add: interv_sum_list_conv_sum_set_nat atLeast0LessThan)

lemma col_nth: "i < length m \<Longrightarrow> col m j ! i = m ! i ! j"
  by (simp add: col_def)

lemma length_col [simp]: "length (col m j) = length m"
  by (simp add: col_def)

lemma np_transpose_mat:
  assumes "is_mat r c m" "0 < r"
  shows "is_mat c r (np_transpose m)"
  using assms by (intro is_matI) (simp_all add: np_transpose_def is_mat_ncols is_mat_length)

lemma np_transpose_nth:
  assumes "is_mat r c m" "0 < r" "i < r" "j < c"
  shows "np_transpose m ! j ! i = m ! i ! j"
  using assms by (simp add: np_transpose_def is_mat_ncols is_mat_length col_nth)

lemma np_dot_mat:
  assumes "is_mat r k a" "is_mat k c b" "0 < r" "0 < k"
  shows "\<exists>p. np_dot a b = Inr p \<and> is_mat r c p \<and>
           (\<forall>i<r. \<forall>j<c. p ! i ! j = (\<Sum>l<k. a ! i ! l * b ! l ! j))"
proof -
  let ?p = "map (\<lambda>row. map (\<lambda>j. dotv row (col b j)) [0..<ncols b]) a"
  have nc: "ncols a = k" "ncols b = c" "nrows b = k" "length a = r" "length b = k"
    using assms by (simp_all add: is_mat_ncols is_mat_length nrows_def)
  have 1: "np_dot a b = Inr ?p" by (simp add: np_dot_def nc)
  have 2: "is_mat r c ?p" by (intro is_matI) (simp_all add: nc)
  have 3: "?p ! i ! j = (\<Sum>l<k. a ! i ! l * b ! l ! j)" if "i < r" "j < c" for i j
  proof -
    have "?p ! i ! j = dotv (a ! i) (col b j)" using that by (simp add: nc)
    also have "\<dots> = (\<Sum>l<k. a ! i ! l * col b j ! l)"
      using that assms by (intro dotv_sum) (simp_all add: is_mat_row nc)
    also have "\<dots> = (\<Sum>l<k. a ! i ! l * b ! l ! j)"
      by (intro sum.cong) (simp_all add: col_nth nc)
    finally show ?thesis .
  qed
  show ?thesis using 1 2 3 by blast
qed

lemma mapE_total:
  "(\<And>x. x \<in> set xs \<Longrightarrow> f x = Inr (g x)) \<Longrightarrow> mapE f xs = Inr (map g xs)"
  by (induction xs) simp_all

lemma np_sum_axis0_mat:
  assumes "is_mat r c m" "0 < r"
  shows "length (np_sum_axis0 m) = c"
    and "j < c \<Longrightarrow> np_sum_axis0 m ! j = (\<Sum>i<r. m ! i ! j)"
proof -
  have nc: "ncols m = c" "length m = r" using assms by (simp_all add: is_mat_ncols is_mat_length)
  show "length (np_sum_axis0 m) = c" by (simp add: np_sum_axis0_def nc)
  show "np_sum_axis0 m ! j = (\<Sum>i<r. m ! i ! j)" if "j < c"
  proof -
    have "np_sum_axis0 m ! j = sum_list (col m j)" using that by (simp add: np_sum_axis0_def nc)
    also have "\<dots> = (\<Sum>i = 0..<length (col m j). col m j ! i)" by (rule sum_list_sum_nth)
    also have "\<dots> = (\<Sum>i<r. m ! i ! j)"
      unfolding atLeast0LessThan by (rule sum.cong) (simp_all add: nc col_nth)
    finally show ?thesis .
  qed
qed

lemma bc_vec_same:
  "length u = length v \<Longrightarrow> bc_vec f u v = Inr (map2 f u v)"
  by (simp add: bc_vec_def)

lemma bc_mat_same:
  assumes "is_mat r c a" "is_mat r c b"
  shows "\<exists>p. bc_mat f a b = Inr p \<and> is_mat r c p \<and>
           (\<forall>i<r. \<forall>j<c. p ! i ! j = f (a ! i ! j) (b ! i ! j))"
proof -
  let ?p = "map (\<lambda>(u, v). map2 f u v) (zip a b)"
  have len: "length a = r" "length b = r" using assms by (simp_all add: is_mat_length)
  have rows: "length u = c \<and> length v = c" if "(u, v) \<in> set (zip a b)" for u v
    using that assms by (auto simp: is_mat_def list_all_iff dest: set_zip_leftD set_zip_rightD)
  have "mapE (\<lambda>(u, v). bc_vec f u v) (zip a b) = Inr ?p"
    by (rule mapE_total) (auto simp: bc_vec_same dest: rows)
  then have 1: "bc_mat f a b = Inr ?p" by (simp add: bc_mat_def len)
  have 2: "is_mat r c ?p"
    using assms by (intro is_matI) (simp_all add: len is_mat_row)
  have 3: "?p ! i ! j = f (a ! i ! j) (b ! i ! j)" if "i < r" "j < c" for i j
    using that assms by (simp add: len is_mat_row)
  show ?thesis using 1 2 3 by blast
qed

lemma np_tile_mat: "is_mat n (length v) (np_tile v n)"
  by (simp add: is_mat_def np_tile_def list_all_length)

lemma np_tile_nth: "i < n \<Longrightarrow> np_tile v n ! i = v"
  by (simp add: np_tile_def)

lemma centre_mat:
  assumes "is_mat r c a" "length mu = c"
  shows "\<exists>p. np_subtract a (np_tile mu r) = Inr p \<and> is_mat r c p \<and>
           (\<forall>i<r. \<forall>j<c. p ! i ! j = a ! i ! j - mu ! j)"
proof -
  have "is_mat r c (np_tile mu r)" using np_tile_mat [of r mu] assms by simp
  from bc_mat_same [OF assms(1) this, of "(-)"] show ?thesis
    by (auto simp: np_subtract_def np_tile_nth)
qed

lemma sum_list_nth_lt: "length v = n \<Longrightarrow> sum_list v = (\<Sum>i<n. v ! i)"
  by (simp add: sum_list_sum_nth atLeast0LessThan)

lemma weighted_sq_norms_mat:
  assumes "is_mat r c m" "length w = r"
  shows "weighted_sq_norms w m = Inr (\<Sum>i<r. w ! i * (\<Sum>j<c. m ! i ! j * m ! i ! j))"
proof -
  from bc_mat_same [OF assms(1) assms(1), of "(*)"] obtain p where
    p: "np_multiply m m = Inr p" "is_mat r c p" "\<forall>i<r. \<forall>j<c. p ! i ! j = m ! i ! j * m ! i ! j"
    by (auto simp: np_multiply_def)
  have len: "length p = r" using p(2) by (simp add: is_mat_length)
  have "dotv w (np_sum_axis1 p) = (\<Sum>i<r. w ! i * np_sum_axis1 p ! i)"
    by (rule dotv_sum) (simp_all add: assms np_sum_axis1_def len)
  also have "\<dots> = (\<Sum>i<r. w ! i * (\<Sum>j<c. m ! i ! j * m ! i ! j))"
  proof (intro sum.cong refl)
    fix i assume "i \<in> {..<r}"
    then have i: "i < r" by simp
    have "np_sum_axis1 p ! i = sum_list (p ! i)" using i by (simp add: np_sum_axis1_def len)
    also have "\<dots> = (\<Sum>j<c. p ! i ! j)" using p(2) i by (intro sum_list_nth_lt) (simp add: is_mat_row)
    also have "\<dots> = (\<Sum>j<c. m ! i ! j * m ! i ! j)" using p(3) i by simp
    finally show "w ! i * np_sum_axis1 p ! i = w ! i * (\<Sum>j<c. m ! i ! j * m ! i ! j)" by simp
  qed
  finally show ?thesis
    by (simp add: weighted_sq_norms_def p(1) np_dot_vv_def np_transpose1_def assms np_sum_axis1_def len)
qed

section \<open>The worked step, evaluated\<close>

lemma np_eye2: "np_eye 2 = [[1, 0], [0, 1]]"
  by (simp add: np_eye_def upt_rec)

lemma np_eye3: "np_eye 3 = [[1, 0, 0], [0, 1, 0], [0, 0, 1]]"
  by (simp add: np_eye_def upt_rec numeral_3_eq_3)

lemma ex_init: "init (\<lambda>_. True) None None None ds dr dt (Inr example_base) =
   (if ds \<or> dr \<or> dt then Inr (example_state ds dr dt) else Inl AssertionError)"
  by (simp add: init_def example_base_def example_state_def)

lemma ex_update: "update_transform example_svd (example_state True True True) = Inr example_updated"
  by code_simp

lemma ex_trAR: "trAR example_updated = Inr 8"
  by code_simp

lemma ex_xPx: "xPx example_updated = Inr 16"
  by code_simp

lemma ex_fields:
  "YPY example_updated = Some 4" "s example_updated = 2" "sigma2 example_updated = 1"
  "Np example_updated = 4" "D example_updated = 2" "q example_updated = 0"
  "tolerance example_updated = 1 / 1000" "N example_updated = 4"
  "X_hat example_updated = Some [[0, 2], [0, - 2], [- 2, 0], [2, 0]]"
  "A example_updated = Some [[0, - 4], [4, 0]]" "R example_updated = [[0, 1], [- 1, 0]]"
  "Pt1 example_updated = [1, 1, 1, 1]" "t example_updated = Vec [3, 5]"
  by (simp_all add: example_updated_def example_state_def example_base_def
      em_registration.extend_def rigid_registration.fields_def)

section \<open>Unfolding the operations\<close>

lemma update_transformE:
  assumes "update_transform svd st = Inr st'"
  obtains mx my xh yh ypy a u sv v c r sc tr where
    "muX st = Inr mx" "muY st = Inr my"
    "centred_target st mx = Inr xh" "centred_source st my = Inr yh"
    "weighted_sq_norms (P1 st) yh = Inr ypy" "cross_covariance st xh yh = Inr a"
    "svd a = Inr (u, sv, v)" "correction (D st) u v = Inr c"
    "(if do_rot st then rotation u c v else Inr (R st)) = Inr r"
    "(if do_scale st then scale_of a r ypy else Inr (s st)) = Inr sc"
    "(if do_trans st then translation mx my sc r else Inr (t st)) = Inr tr"
    "st' = st\<lparr>X_hat := Some xh, YPY := Some ypy, A := Some a, R := r, s := sc, t := tr\<rparr>"
  using assms by (auto simp: update_transform_def bindE_Inr_iff split: prod.splits)

lemma bindE_InrE:
  assumes "bindE m f = Inr y"
  obtains x where "m = Inr x" "f x = Inr y"
  using assms by (auto simp: bindE_Inr_iff)

lemma attr_Inr_iff: "attr x = Inr v \<longleftrightarrow> x = Some v"
  by (simp add: attr_def split: option.splits)

lemma init_cases:
  "\<exists>bad g. \<forall>b1 b2 b3. init psd R0 t0 s0 b1 b2 b3 (Inr base) =
     (if bad then Inl ValueError else if \<not> (b1 \<or> b2 \<or> b3) then Inl AssertionError
      else Inr (g b1 b2 b3))"
  apply (rule exI [of _ "(D base \<noteq> 2 \<and> D base \<noteq> 3) \<or>
       (case R0 of None \<Rightarrow> False | Some (Vec v) \<Rightarrow> True
        | Some (Mat m) \<Rightarrow> nrows m \<noteq> D base \<or> ncols m \<noteq> D base \<or> \<not> psd m) \<or>
       (case t0 of None \<Rightarrow> False | Some (Vec v) \<Rightarrow> True
        | Some (Mat m) \<Rightarrow> nrows m \<noteq> 1 \<or> ncols m \<noteq> D base) \<or>
       (case s0 of None \<Rightarrow> False | Some c \<Rightarrow> c \<le> 0)"])
  apply (rule exI [of _ "\<lambda>b1 b2 b3. em_registration.extend base
              (rigid_registration.fields
                 (case R0 of Some (Mat m) \<Rightarrow> m | _ \<Rightarrow> np_eye (D base))
                 (case t0 of Some a \<Rightarrow> a | None \<Rightarrow> Mat (np_zeros 1 (D base)))
                 (case s0 of Some c \<Rightarrow> c | None \<Rightarrow> 1)
                 b1 b2 b3 None None None)"])
  apply (simp add: init_def)
  done

section \<open>Construction\<close>

text \<open>
  C8: construction fails whenever the three toggles are all disabled, with the assertion
  error of the final check when nothing else is wrong with the arguments; and a failure
  with at least one toggle enabled is not due to the toggles: the same failure occurs for
  every setting of the three toggles.
\<close>
theorem init_toggles:
  "(\<not> scale0 \<and> \<not> rot0 \<and> \<not> trans0 \<longrightarrow>
      (\<exists>e. init psd R0 t0 s0 scale0 rot0 trans0 super = Inl e) \<and>
      ((\<exists>st. init psd R0 t0 s0 True True True super = Inr st) \<longrightarrow>
         init psd R0 t0 s0 scale0 rot0 trans0 super = Inl AssertionError)) \<and>
   (scale0 \<or> rot0 \<or> trans0 \<longrightarrow>
      (\<forall>e. init psd R0 t0 s0 scale0 rot0 trans0 super = Inl e \<longrightarrow>
         (\<forall>b1 b2 b3. init psd R0 t0 s0 b1 b2 b3 super = Inl e)))"
proof (cases super)
  case (Inl e)
  then show ?thesis by (simp add: init_def)
next
  case (Inr base)
  from init_cases [of psd R0 t0 s0 base] obtain bad g where
    *: "\<And>b1 b2 b3. init psd R0 t0 s0 b1 b2 b3 super =
     (if bad then Inl ValueError else if \<not> (b1 \<or> b2 \<or> b3) then Inl AssertionError
      else Inr (g b1 b2 b3))"
    unfolding Inr by blast
  show ?thesis unfolding * by auto
qed

theorem init_toggles_witness:
  "init (\<lambda>_. True) None None None False False False (Inr example_base) = Inl AssertionError \<and>
   (\<forall>e. init (\<lambda>_. True) None None None False True False (Inr example_base) \<noteq> Inl e)"
proof -
  have ok: "init (\<lambda>_. True) None None None True True True (Inr example_base)
            = Inr (example_state True True True)"
    by (simp add: ex_init)
  have 1: "init (\<lambda>_. True) None None None False False False (Inr example_base) = Inl AssertionError"
    using init_toggles [of False False False "\<lambda>_. True" None None None "Inr example_base"] ok
    by blast
  have 2: "init (\<lambda>_. True) None None None False True False (Inr example_base) \<noteq> Inl e" for e
  proof
    assume "init (\<lambda>_. True) None None None False True False (Inr example_base) = Inl e"
    with init_toggles [of False True False "\<lambda>_. True" None None None "Inr example_base"]
    have "init (\<lambda>_. True) None None None True True True (Inr example_base) = Inl e" by blast
    with ok show False by simp
  qed
  from 1 2 show ?thesis by blast
qed

lemma update_transform_fields:
  assumes "update_transform svd st = Inr st'"
  obtains mx my xh yh ypy a u sv v c where
    "muX st = Inr mx" "muY st = Inr my"
    "centred_target st mx = Inr xh" "centred_source st my = Inr yh"
    "weighted_sq_norms (P1 st) yh = Inr ypy" "cross_covariance st xh yh = Inr a"
    "svd a = Inr (u, sv, v)" "correction (D st) u v = Inr c"
    "(if do_rot st then rotation u c v else Inr (R st)) = Inr (R st')"
    "(if do_scale st then scale_of a (R st') ypy else Inr (s st)) = Inr (s st')"
    "(if do_trans st then translation mx my (s st') (R st') else Inr (t st)) = Inr (t st')"
    "X_hat st' = Some xh" "YPY st' = Some ypy" "A st' = Some a"
    "do_rot st' = do_rot st" "do_scale st' = do_scale st" "do_trans st' = do_trans st"
    "em_registration.truncate st' = em_registration.truncate st"
proof -
  from assms obtain mx my xh yh ypy a u sv v c r sc tr where
    1: "muX st = Inr mx" "muY st = Inr my"
    "centred_target st mx = Inr xh" "centred_source st my = Inr yh"
    "weighted_sq_norms (P1 st) yh = Inr ypy" "cross_covariance st xh yh = Inr a"
    "svd a = Inr (u, sv, v)" "correction (D st) u v = Inr c"
    and 2: "(if do_rot st then rotation u c v else Inr (R st)) = Inr r"
    "(if do_scale st then scale_of a r ypy else Inr (s st)) = Inr sc"
    "(if do_trans st then translation mx my sc r else Inr (t st)) = Inr tr"
    and 3: "st' = st\<lparr>X_hat := Some xh, YPY := Some ypy, A := Some a, R := r, s := sc, t := tr\<rparr>"
    by (rule update_transformE)
  have 4: "R st' = r" "s st' = sc" "t st' = tr" "X_hat st' = Some xh" "YPY st' = Some ypy"
    "A st' = Some a" "do_rot st' = do_rot st" "do_scale st' = do_scale st"
    "do_trans st' = do_trans st"
    unfolding 3 by simp_all
  have 5: "em_registration.truncate st' = em_registration.truncate st"
    unfolding 3 by (simp add: em_registration.truncate_def)
  show thesis
    by (rule that [OF 1 2 [folded 4(1-3)] 4(4-9) 5])
qed

lemma update_transform_frame:
  assumes "update_transform svd st = Inr st'"
  shows "(\<not> do_rot st \<longrightarrow> R st' = R st) \<and> (\<not> do_scale st \<longrightarrow> s st' = s st) \<and>
         (\<not> do_trans st \<longrightarrow> t st' = t st) \<and>
         do_rot st' = do_rot st \<and> do_scale st' = do_scale st \<and> do_trans st' = do_trans st"
proof (rule update_transform_fields [OF assms])
  fix u sv v c a ypy mx my
  assume 1: "(if do_rot st then rotation u c v else Inr (R st)) = Inr (R st')"
    and 2: "(if do_scale st then scale_of a (R st') ypy else Inr (s st)) = Inr (s st')"
    and 3: "(if do_trans st then translation mx my (s st') (R st') else Inr (t st)) = Inr (t st')"
    and 4: "do_rot st' = do_rot st" "do_scale st' = do_scale st" "do_trans st' = do_trans st"
  from 1 have "\<not> do_rot st \<longrightarrow> R st' = R st" by (simp split: if_splits)
  moreover from 2 have "\<not> do_scale st \<longrightarrow> s st' = s st" by (simp split: if_splits)
  moreover from 3 have "\<not> do_trans st \<longrightarrow> t st' = t st" by (simp split: if_splits)
  ultimately show ?thesis using 4 by blast
qed

lemma update_transform_n_frame:
  "update_transform_n svd n st = Inr st' \<Longrightarrow>
     (\<not> do_rot st \<longrightarrow> R st' = R st) \<and> (\<not> do_scale st \<longrightarrow> s st' = s st) \<and>
     (\<not> do_trans st \<longrightarrow> t st' = t st) \<and>
     do_rot st' = do_rot st \<and> do_scale st' = do_scale st \<and> do_trans st' = do_trans st"
proof (induction n arbitrary: st)
  case 0
  then show ?case by simp
next
  case (Suc n)
  from Suc.prems obtain st1 where
    1: "update_transform svd st = Inr st1" and 2: "update_transform_n svd n st1 = Inr st'"
    by (auto simp: bindE_Inr_iff)
  from update_transform_frame [OF 1] Suc.IH [OF 2] show ?case by simp
qed

lemma update_transform_assigned:
  assumes "update_transform svd st = Inr st'"
  shows "\<exists>mx my a ypy u sv v c. muX st = Inr mx \<and> muY st = Inr my \<and> A st' = Some a \<and>
           YPY st' = Some ypy \<and> svd a = Inr (u, sv, v) \<and> correction (D st) u v = Inr c \<and>
           (do_rot st \<longrightarrow> rotation u c v = Inr (R st')) \<and>
           (do_scale st \<longrightarrow> scale_of a (R st') ypy = Inr (s st')) \<and>
           (do_trans st \<longrightarrow> translation mx my (s st') (R st') = Inr (t st'))"
proof (rule update_transform_fields [OF assms])
  fix u sv v c a ypy mx my
  assume 0: "muX st = Inr mx" "muY st = Inr my" "A st' = Some a" "YPY st' = Some ypy"
     "svd a = Inr (u, sv, v)" "correction (D st) u v = Inr c"
    and 1: "(if do_rot st then rotation u c v else Inr (R st)) = Inr (R st')"
    and 2: "(if do_scale st then scale_of a (R st') ypy else Inr (s st)) = Inr (s st')"
    and 3: "(if do_trans st then translation mx my (s st') (R st') else Inr (t st)) = Inr (t st')"
  from 1 have "do_rot st \<longrightarrow> rotation u c v = Inr (R st')" by (simp split: if_splits)
  moreover from 2 have "do_scale st \<longrightarrow> scale_of a (R st') ypy = Inr (s st')" by (simp split: if_splits)
  moreover from 3 have "do_trans st \<longrightarrow> translation mx my (s st') (R st') = Inr (t st')"
    by (simp split: if_splits)
  ultimately show ?thesis using 0 by blast
qed

lemma np_zeros12: "np_zeros (Suc 0) 2 = [[0, 0]]"
  by (simp add: np_zeros_def numeral_2_eq_2)

lemma ex_toggles:
  "do_scale (example_state b1 b2 b3) = b1" "do_rot (example_state b1 b2 b3) = b2"
  "do_trans (example_state b1 b2 b3) = b3" "R (example_state b1 b2 b3) = [[1, 0], [0, 1]]"
  "s (example_state b1 b2 b3) = 1" "t (example_state b1 b2 b3) = Mat [[0, 0]]"
  by (simp_all add: example_state_def em_registration.extend_def rigid_registration.fields_def
      np_eye2 np_zeros12)

lemma ex_update_translated:
  "update_transform example_svd (example_state False False True) = Inr example_translated"
  by code_simp

lemma ex_update_twice:
  "update_transform_n example_svd 2 (example_state False False True) = Inr example_translated"
  by code_simp

section \<open>Which components a call of the estimator assigns\<close>

text \<open>
  C7: a call of \<open>update_transform\<close> assigns exactly the enabled components: an enabled
  rotation, scale or translation is set to the value computed in this call, a disabled
  one keeps its previous value, and the toggles themselves never change; hence a disabled
  component is the same after any number of repeated calls.
\<close>

theorem update_transform_toggles:
  assumes "update_transform svd st = Inr st'"
  shows "(\<not> do_rot st \<longrightarrow> R st' = R st) \<and> (\<not> do_scale st \<longrightarrow> s st' = s st) \<and>
         (\<not> do_trans st \<longrightarrow> t st' = t st) \<and>
         (\<exists>mx my a ypy u sv v c. muX st = Inr mx \<and> muY st = Inr my \<and> A st' = Some a \<and>
           YPY st' = Some ypy \<and> svd a = Inr (u, sv, v) \<and> correction (D st) u v = Inr c \<and>
           (do_rot st \<longrightarrow> rotation u c v = Inr (R st')) \<and>
           (do_scale st \<longrightarrow> scale_of a (R st') ypy = Inr (s st')) \<and>
           (do_trans st \<longrightarrow> translation mx my (s st') (R st') = Inr (t st'))) \<and>
         (\<forall>n st''. update_transform_n svd n st = Inr st'' \<longrightarrow>
           (\<not> do_rot st \<longrightarrow> R st'' = R st) \<and> (\<not> do_scale st \<longrightarrow> s st'' = s st) \<and>
           (\<not> do_trans st \<longrightarrow> t st'' = t st))"
  using update_transform_frame [OF assms] update_transform_assigned [OF assms]
    update_transform_n_frame [of svd _ st]
  by blast

theorem update_transform_toggles_witness:
  "update_transform example_svd (example_state False False True) = Inr example_translated \<and>
   R example_translated = [[1, 0], [0, 1]] \<and> s example_translated = 1 \<and>
   translation [3, 5] [0, 0] 1 [[1, 0], [0, 1]] = Inr (t example_translated)"
proof -
  note u = ex_update_translated
  from update_transform_toggles [OF u] have
    1: "R example_translated = [[1, 0], [0, 1]]" "s example_translated = 1"
    by (simp_all add: ex_toggles)
  from update_transform_toggles [OF u] obtain mx my where
    2: "muX (example_state False False True) = Inr mx" "muY (example_state False False True) = Inr my"
    "translation mx my (s example_translated) (R example_translated) = Inr (t example_translated)"
    by (auto simp: ex_toggles)
  have "muX (example_state False False True) = Inr [3, 5]"
    "muY (example_state False False True) = Inr [0, 0]"
    by code_simp+
  with 2 have "mx = [3, 5]" "my = [0, 0]" by simp_all
  with 1 2(3) u show ?thesis by simp
qed

section \<open>The variance floor\<close>

lemma co_update: "update_transform identity_svd coincident_state = Inr coincident_updated"
  by code_simp

lemma co_trAR: "trAR coincident_updated = Inr 0"
  by code_simp

lemma co_xPx: "xPx coincident_updated = Inr 16"
  by code_simp



lemma assign_variance_returns:
  assumes "trAR st = Inr tr" "xPx st = Inr xp" "YPY st = Some ypy"
  shows "assign_variance st =
    Inr (st\<lparr>q := (xp - 2 * s st * tr + s st * s st * ypy) / (2 * sigma2 st)
                     + Fin (real (D st)) * Np st / 2 * np_log (sigma2 st),
              diff := \<bar>(xp - 2 * s st * tr + s st * s st * ypy) / (2 * sigma2 st)
                     + Fin (real (D st)) * Np st / 2 * np_log (sigma2 st) - q st\<bar>,
              sigma2 := (xp - s st * tr) / (Np st * Fin (real (D st)))\<rparr>)"
  unfolding assign_variance_def Let_def assms attr_def
  by (simp del: float_simps)

lemma update_variance_returns:
  assumes "trAR st = Inr tr" "xPx st = Inr xp" "YPY st = Some ypy"
  shows "update_variance st =
    Inr (st\<lparr>q := (xp - 2 * s st * tr + s st * s st * ypy) / (2 * sigma2 st)
                     + Fin (real (D st)) * Np st / 2 * np_log (sigma2 st),
              diff := \<bar>(xp - 2 * s st * tr + s st * s st * ypy) / (2 * sigma2 st)
                     + Fin (real (D st)) * Np st / 2 * np_log (sigma2 st) - q st\<bar>,
              sigma2 := (if (xp - s st * tr) / (Np st * Fin (real (D st))) \<le> 0
                         then tolerance st / 10
                         else (xp - s st * tr) / (Np st * Fin (real (D st))))\<rparr>)"
  unfolding update_variance_def assign_variance_returns [OF assms] floor_variance_def
  by (simp del: float_simps)

lemma update_variance_InrD:
  assumes "update_variance st = Inr st'"
  shows "\<exists>tr xp ypy. trAR st = Inr tr \<and> xPx st = Inr xp \<and> YPY st = Some ypy"
  using assms unfolding update_variance_def assign_variance_def Let_def
  apply (elim bindE_InrE)
  apply (simp only: attr_Inr_iff)
  apply blast
  done

lemma np_trace_mat:
  assumes "is_mat d d p" "0 < d"
  shows "np_trace p = (\<Sum>i<d. p ! i ! i)"
  using assms by (simp add: np_trace_def nrows_def is_mat_length is_mat_ncols sum_list_upt del: float_simps)

lemma trAR_mat:
  assumes "A st = Some a" "is_mat d d a" "is_mat d d (R st)" "0 < d"
  shows "trAR st = Inr (\<Sum>i<d. \<Sum>k<d. a ! i ! k * R st ! k ! i)"
proof -
  from np_dot_mat [OF assms(2,3,4,4)] obtain p where
    p: "np_dot a (R st) = Inr p" "is_mat d d p"
       "\<forall>i<d. \<forall>j<d. p ! i ! j = (\<Sum>l<d. a ! i ! l * R st ! l ! j)"
    by blast
  have "np_trace p = (\<Sum>i<d. p ! i ! i)" by (rule np_trace_mat [OF p(2) assms(4)])
  also have "\<dots> = (\<Sum>i<d. \<Sum>k<d. a ! i ! k * R st ! k ! i)"
    using p(3) by (intro sum.cong refl) simp
  finally show ?thesis by (simp add: trAR_def assms(1) attr_def p(1) del: float_simps)
qed

lemma xPx_mat:
  assumes "X_hat st = Some xh" "is_mat n c xh" "length (Pt1 st) = n"
  shows "xPx st = Inr (\<Sum>i<n. Pt1 st ! i * (\<Sum>j<c. xh ! i ! j * xh ! i ! j))"
  using weighted_sq_norms_mat [OF assms(2,3)] by (simp add: xPx_def assms(1) attr_def del: float_simps)

lemma floor_positive:
  "0 < tol \<Longrightarrow> raw \<noteq> NaN \<Longrightarrow> (0::float) < (if raw \<le> 0 then tol / 10 else raw)"
  by (cases tol; cases raw) (simp_all add: numeral_float)

text \<open>
  C5 (amended): on a state that holds \<open>A\<close>, \<open>X_hat\<close> and \<open>YPY\<close> of matching shapes
  \<open>update_variance\<close> returns, and \<open>sigma2\<close> is then \<open>tolerance / 10\<close> when the raw value
  \<open>(xPx - s \<cdot> trAR) / (Np \<cdot> D)\<close> is at most 0 and the raw value otherwise. With a
  positive tolerance it is strictly positive provided the raw value is not \<open>nan\<close>.
\<close>

theorem update_variance_sigma2:
  assumes "A st = Some a" "is_mat (D st) (D st) a" "is_mat (D st) (D st) (R st)" "0 < D st"
    and "X_hat st = Some xh" "is_mat (N st) (D st) xh" "length (Pt1 st) = N st"
    and "YPY st = Some ypy"
  shows "\<exists>st' tr xp. update_variance st = Inr st' \<and> trAR st = Inr tr \<and> xPx st = Inr xp \<and>
    (let raw = (xp - s st * tr) / (Np st * Fin (real (D st))) in
       sigma2 st' = (if raw \<le> 0 then tolerance st / 10 else raw) \<and>
       (0 < tolerance st \<and> raw \<noteq> NaN \<longrightarrow> 0 < sigma2 st'))"
proof -
  from trAR_mat [OF assms(1,2,3,4)] obtain tr where tr: "trAR st = Inr tr" by blast
  from xPx_mat [OF assms(5,6,7)] obtain xp where xp: "xPx st = Inr xp" by blast
  define raw where "raw = (xp - s st * tr) / (Np st * Fin (real (D st)))"
  define st' where "st' = st\<lparr>q := (xp - 2 * s st * tr + s st * s st * ypy) / (2 * sigma2 st)
                     + Fin (real (D st)) * Np st / 2 * np_log (sigma2 st),
              diff := \<bar>(xp - 2 * s st * tr + s st * s st * ypy) / (2 * sigma2 st)
                     + Fin (real (D st)) * Np st / 2 * np_log (sigma2 st) - q st\<bar>,
              sigma2 := (if raw \<le> 0 then tolerance st / 10 else raw)\<rparr>"
  have 1: "update_variance st = Inr st'"
    unfolding st'_def raw_def by (rule update_variance_returns [OF tr xp assms(8)])
  have 2: "sigma2 st' = (if raw \<le> 0 then tolerance st / 10 else raw)"
    unfolding st'_def by simp
  have 3: "0 < tolerance st \<and> raw \<noteq> NaN \<longrightarrow> 0 < sigma2 st'"
    unfolding 2 using floor_positive [of "tolerance st" raw] by blast
  have "let raw = (xp - s st * tr) / (Np st * Fin (real (D st))) in
       sigma2 st' = (if raw \<le> 0 then tolerance st / 10 else raw) \<and>
       (0 < tolerance st \<and> raw \<noteq> NaN \<longrightarrow> 0 < sigma2 st')"
    unfolding Let_def raw_def [symmetric] using 2 3 by (rule conjI)
  with 1 tr xp show ?thesis by blast
qed

lemma ex_variance:
  "update_variance example_updated = Inr (example_updated\<lparr>q := 0, diff := 0, sigma2 := 1 / 10000\<rparr>)"
  unfolding update_variance_returns [OF ex_trAR ex_xPx ex_fields(1)]
  by (simp add: ex_fields numeral_float)

lemma co_fields:
  "YPY coincident_updated = Some 0" "s coincident_updated = NaN" "sigma2 coincident_updated = 1"
  "Np coincident_updated = 4" "D coincident_updated = 2" "q coincident_updated = 0"
  "tolerance coincident_updated = 1 / 1000" "tolerance coincident_state = 1 / 1000"
  by (simp_all add: coincident_updated_def coincident_state_def example_state_def example_base_def
      em_registration.extend_def rigid_registration.fields_def)

lemma co_variance:
  "update_variance coincident_updated =
     Inr (coincident_updated\<lparr>q := NaN, diff := NaN, sigma2 := NaN\<rparr>)"
  unfolding update_variance_returns [OF co_trAR co_xPx co_fields(1)]
  by (simp add: co_fields numeral_float)

theorem update_variance_sigma2_witness:
  "update_variance example_updated =
     Inr (example_updated\<lparr>q := 0, diff := 0, sigma2 := 1 / 10000\<rparr>) \<and>
   trAR example_updated = Inr 8 \<and> xPx example_updated = Inr 16 \<and>
   0 < tolerance example_updated \<and>
   0 < sigma2 (example_updated\<lparr>q := 0, diff := 0, sigma2 := 1 / 10000\<rparr>)"
proof -
  have h: "A example_updated = Some [[0, - 4], [4, 0]]"
    "is_mat (D example_updated) (D example_updated) [[0, - 4], [4, 0]]"
    "is_mat (D example_updated) (D example_updated) (R example_updated)"
    "0 < D example_updated"
    "X_hat example_updated = Some [[0, 2], [0, - 2], [- 2, 0], [2, 0]]"
    "is_mat (N example_updated) (D example_updated) [[0, 2], [0, - 2], [- 2, 0], [2, 0]]"
    "length (Pt1 example_updated) = N example_updated"
    "YPY example_updated = Some 4"
    by (simp_all add: ex_fields is_mat_def)
  from update_variance_sigma2 [OF h] obtain st' tr xp where
    1: "update_variance example_updated = Inr st'" "trAR example_updated = Inr tr"
       "xPx example_updated = Inr xp"
    and 2: "let raw = (xp - s example_updated * tr) / (Np example_updated * Fin (real (D example_updated))) in
       sigma2 st' = (if raw \<le> 0 then tolerance example_updated / 10 else raw) \<and>
       (0 < tolerance example_updated \<and> raw \<noteq> NaN \<longrightarrow> 0 < sigma2 st')"
    by blast
  have e: "st' = example_updated\<lparr>q := 0, diff := 0, sigma2 := 1 / 10000\<rparr>" "tr = 8" "xp = 16"
    using 1 unfolding ex_variance ex_trAR ex_xPx by simp_all
  have tol: "0 < tolerance example_updated" by (simp add: ex_fields numeral_float)
  have "(xp - s example_updated * tr) / (Np example_updated * Fin (real (D example_updated))) \<noteq> NaN"
    unfolding e by (simp add: ex_fields numeral_float)
  with 2 tol have "0 < sigma2 st'" unfolding Let_def by blast
  then have "0 < sigma2 (example_updated\<lparr>q := 0, diff := 0, sigma2 := 1 / 10000\<rparr>)"
    unfolding e .
  with tol ex_variance ex_trAR ex_xPx show ?thesis by blast
qed

theorem update_variance_sigma2_counterexample:
  "0 < tolerance coincident_state \<and>
   svd_result 2 [[0, 0], [0, 0]] ([[1, 0], [0, 1]], [0, 0], [[1, 0], [0, 1]]) \<and>
   update_transform identity_svd coincident_state = Inr coincident_updated \<and>
   update_variance coincident_updated =
     Inr (coincident_updated\<lparr>q := NaN, diff := NaN, sigma2 := NaN\<rparr>) \<and>
   \<not> 0 < sigma2 (coincident_updated\<lparr>q := NaN, diff := NaN, sigma2 := NaN\<rparr>)"
proof -
  have 1: "0 < tolerance coincident_state" by (simp add: co_fields numeral_float)
  have 2: "svd_result 2 [[0, 0], [0, 0]] ([[1, 0], [0, 1]], [0, 0], [[1, 0], [0, 1]])"
    by code_simp
  have 3: "\<not> 0 < sigma2 (coincident_updated\<lparr>q := NaN, diff := NaN, sigma2 := NaN\<rparr>)"
    by simp
  from 1 2 co_update co_variance 3 show ?thesis by blast
qed

section \<open>The scale update with rotation disabled\<close>






section \<open>The transform applier on clouds of matching shape\<close>

lemma bc_mat_row:
  assumes "is_mat k c a" "length v = c" "0 < k"
  shows "bc_mat f a [v] = Inr (map (\<lambda>u. map2 f u v) a)"
proof -
  have len: "length a = k" using assms(1) by (simp add: is_mat_length)
  have rows: "length u = length v" if "u \<in> set a" for u
    using that assms by (auto simp: is_mat_def list_all_iff)
  show ?thesis
  proof (cases "k = 1")
    case True
    with len obtain u where a: "a = [u]" by (cases a) auto
    with rows have "length u = length v" by simp
    then show ?thesis by (simp add: a bc_mat_def bc_vec_same)
  next
    case False
    have "mapE (\<lambda>u. bc_vec f u v) a = Inr (map (\<lambda>u. map2 f u v) a)"
      by (rule mapE_total) (simp add: bc_vec_same rows)
    with False len show ?thesis by (simp add: bc_mat_def)
  qed
qed

lemma np_add_row:
  assumes "is_mat k c a" "length v = c" "0 < k" "b = Vec v \<or> b = Mat [v]"
  shows "np_add a b = Inr (map (\<lambda>u. map2 (+) u v) a)"
  using assms(4) bc_mat_row [OF assms(1-3), of "(+)"] by (auto simp: np_add_def)

lemma apply_transform_mat:
  assumes "is_mat k d cloud" "is_mat d d (R st)" "0 < k" "0 < d" "length v = d"
    "t st = Vec v \<or> t st = Mat [v]"
  shows "\<exists>ty. apply_transform st cloud = Inr ty \<and> is_mat k d ty \<and>
           (\<forall>i<k. \<forall>j<d. ty ! i ! j = s st * (\<Sum>l<d. cloud ! i ! l * R st ! l ! j) + v ! j)"
proof -
  from np_dot_mat [OF assms(1,2,3,4)] obtain p where
    p: "np_dot cloud (R st) = Inr p" "is_mat k d p"
       "\<forall>i<k. \<forall>j<d. p ! i ! j = (\<Sum>l<d. cloud ! i ! l * R st ! l ! j)"
    by blast
  have lp: "length p = k" using p(2) by (simp add: is_mat_length)
  have sp: "is_mat k d (scale_mat (s st) p)"
    using p(2) by (intro is_matI) (simp_all add: scale_mat_def scale_vec_def lp is_mat_row)
  let ?ty = "map (\<lambda>u. map2 (+) u v) (scale_mat (s st) p)"
  have 1: "apply_transform st cloud = Inr ?ty"
    by (simp add: apply_transform_def p(1) np_add_row [OF sp assms(5,3,6)])
  have 2: "is_mat k d ?ty"
    using p(2) assms(5) by (intro is_matI) (simp_all add: scale_mat_def scale_vec_def lp is_mat_row)
  have 3: "?ty ! i ! j = s st * (\<Sum>l<d. cloud ! i ! l * R st ! l ! j) + v ! j"
    if "i < k" "j < d" for i j
    using that p(2,3) assms(5) by (simp add: scale_mat_def scale_vec_def lp is_mat_row)
  show ?thesis using 1 2 3 by blast
qed

lemma transform_point_cloud_Some:
  assumes "transform_point_cloud st (Some cl) = Inr (st', r)"
  shows "st' = st \<and> (\<exists>ty. r = Some ty \<and> apply_transform st cl = Inr ty)"
proof -
  from assms have "bindE (apply_transform st cl) (\<lambda>ty. Inr (st, Some ty)) = Inr (st', r)"
    by (simp add: transform_point_cloud_def)
  then obtain ty where 1: "apply_transform st cl = Inr ty" and 2: "Inr (st, Some ty) = (Inr (st', r) :: error + rigid_registration \<times> mat option)"
    by (rule bindE_InrE)
  from 2 have "st' = st" "r = Some ty" by simp_all
  with 1 show ?thesis by blast
qed

lemma transform_point_cloud_None:
  assumes "transform_point_cloud st None = Inr (st', r)"
  shows "r = None \<and> (\<exists>ty. st' = st\<lparr>TY := ty\<rparr> \<and> apply_transform st (Y st) = Inr ty)"
proof -
  from assms have "bindE (apply_transform st (Y st)) (\<lambda>ty. Inr (st\<lparr>TY := ty\<rparr>, None)) = Inr (st', r)"
    by (simp add: transform_point_cloud_def)
  then obtain ty where 1: "apply_transform st (Y st) = Inr ty"
    and 2: "Inr (st\<lparr>TY := ty\<rparr>, None) = (Inr (st', r) :: error + rigid_registration \<times> mat option)"
    by (rule bindE_InrE)
  from 2 have "st' = st\<lparr>TY := ty\<rparr>" "r = None" by simp_all
  with 1 show ?thesis by blast
qed

lemma ex_cloud_fields:
  "D example_updated = 2" "M example_updated = 4" "R example_updated = [[0, 1], [- 1, 0]]"
  "t example_updated = Vec [3, 5]" "Y example_updated = [[1, 0], [- 1, 0], [0, 1], [0, - 1]]"
  "s example_updated = 2"
  by (simp_all add: example_updated_def example_state_def example_base_def
      em_registration.extend_def rigid_registration.fields_def)

lemma ex_transform_None:
  "transform_point_cloud example_updated None =
     Inr (example_updated\<lparr>TY := [[3, 7], [3, 3], [1, 5], [5, 5]]\<rparr>, None)"
  by code_simp

lemma ex_transform_Some:
  "transform_point_cloud example_updated (Some [[1, 0]]) = Inr (example_updated, Some [[3, 7]])"
  by code_simp

lemma ex_cloud_shapes:
  "is_mat (D example_updated) (D example_updated) (R example_updated)"
  "0 < D example_updated" "length [3, 5 :: float] = D example_updated"
  "t example_updated = Vec [3, 5] \<or> t example_updated = Mat [[3, 5]]"
  "is_mat (M example_updated) (D example_updated) (Y example_updated)"
  "0 < M example_updated" "is_mat 1 (D example_updated) [[1, 0]]" "0 < (1::nat)"
  unfolding ex_cloud_fields by (simp_all add: is_mat_def)

text \<open>
  C6: without an argument \<open>transform_point_cloud\<close> stores \<open>s \<cdot> Y \<cdot> R + t\<close> as \<open>TY\<close>,
  changes nothing else and returns nothing; with a cloud it returns
  \<open>s \<cdot> cloud \<cdot> R + t\<close> and the state after the call is the state before it. On clouds
  of matching shape both calls succeed.
\<close>

theorem transform_point_cloud_modes:
  assumes "is_mat (D st) (D st) (R st)" "0 < D st" "length v = D st"
    and "t st = Vec v \<or> t st = Mat [v]"
    and "is_mat (M st) (D st) (Y st)" "0 < M st" "is_mat k (D st) cloud" "0 < k"
  shows "(\<exists>ty. transform_point_cloud st None = Inr (st\<lparr>TY := ty\<rparr>, None) \<and>
            is_mat (M st) (D st) ty \<and>
            (\<forall>i<M st. \<forall>j<D st.
               ty ! i ! j = s st * (\<Sum>l<D st. Y st ! i ! l * R st ! l ! j) + v ! j)) \<and>
         (\<exists>ty. transform_point_cloud st (Some cloud) = Inr (st, Some ty) \<and>
            is_mat k (D st) ty \<and>
            (\<forall>i<k. \<forall>j<D st.
               ty ! i ! j = s st * (\<Sum>l<D st. cloud ! i ! l * R st ! l ! j) + v ! j)) \<and>
         (\<forall>cl st' r. transform_point_cloud st (Some cl) = Inr (st', r) \<longrightarrow>
            st' = st \<and> (\<exists>ty. r = Some ty \<and> apply_transform st cl = Inr ty)) \<and>
         (\<forall>st' r. transform_point_cloud st None = Inr (st', r) \<longrightarrow>
            r = None \<and> (\<exists>ty. st' = st\<lparr>TY := ty\<rparr> \<and> apply_transform st (Y st) = Inr ty))"
proof -
  from apply_transform_mat [OF assms(5,1,6,2,3,4)] obtain ty1 where
    1: "apply_transform st (Y st) = Inr ty1" "is_mat (M st) (D st) ty1"
       "\<forall>i<M st. \<forall>j<D st.
          ty1 ! i ! j = s st * (\<Sum>l<D st. Y st ! i ! l * R st ! l ! j) + v ! j"
    by blast
  from apply_transform_mat [OF assms(7,1,8,2,3,4)] obtain ty2 where
    2: "apply_transform st cloud = Inr ty2" "is_mat k (D st) ty2"
       "\<forall>i<k. \<forall>j<D st.
          ty2 ! i ! j = s st * (\<Sum>l<D st. cloud ! i ! l * R st ! l ! j) + v ! j"
    by blast
  have a: "transform_point_cloud st None = Inr (st\<lparr>TY := ty1\<rparr>, None)"
    by (simp add: transform_point_cloud_def 1(1))
  have b: "transform_point_cloud st (Some cloud) = Inr (st, Some ty2)"
    by (simp add: transform_point_cloud_def 2(1))
  have c: "\<forall>cl st' r. transform_point_cloud st (Some cl) = Inr (st', r) \<longrightarrow>
            st' = st \<and> (\<exists>ty. r = Some ty \<and> apply_transform st cl = Inr ty)"
    by (intro allI impI transform_point_cloud_Some)
  have d: "\<forall>st' r. transform_point_cloud st None = Inr (st', r) \<longrightarrow>
            r = None \<and> (\<exists>ty. st' = st\<lparr>TY := ty\<rparr> \<and> apply_transform st (Y st) = Inr ty)"
    by (intro allI impI transform_point_cloud_None)
  show ?thesis
    apply (intro conjI)
       apply (rule exI [of _ ty1])
       apply (intro conjI a 1(2) 1(3))
      apply (rule exI [of _ ty2])
      apply (intro conjI b 2(2) 2(3))
     apply (rule c)
    apply (rule d)
    done
qed

theorem transform_point_cloud_modes_witness:
  "transform_point_cloud example_updated None =
     Inr (example_updated\<lparr>TY := [[3, 7], [3, 3], [1, 5], [5, 5]]\<rparr>, None) \<and>
   transform_point_cloud example_updated (Some [[1, 0]]) = Inr (example_updated, Some [[3, 7]]) \<and>
   is_mat 4 2 [[3, 7], [3, 3], [1, 5], [5, 5]] \<and> is_mat 1 2 [[3, 7]]"
proof -
  note m = transform_point_cloud_modes [OF ex_cloud_shapes]
  from m [THEN conjunct1] obtain ty1 where
    1: "transform_point_cloud example_updated None = Inr (example_updated\<lparr>TY := ty1\<rparr>, None)"
       "is_mat (M example_updated) (D example_updated) ty1"
    by (elim exE conjE)
  from m [THEN conjunct2, THEN conjunct1] obtain ty2 where
    2: "transform_point_cloud example_updated (Some [[1, 0]]) = Inr (example_updated, Some ty2)"
       "is_mat 1 (D example_updated) ty2"
    by (elim exE conjE)
  from 2(1) have e2: "ty2 = [[3, 7]]" unfolding ex_transform_Some by simp
  from 1(1) have "TY (example_updated\<lparr>TY := ty1\<rparr>) = TY (example_updated\<lparr>TY := [[3, 7], [3, 3], [1, 5], [5, 5]]\<rparr>)"
    unfolding ex_transform_None by simp
  then have e1: "ty1 = [[3, 7], [3, 3], [1, 5], [5, 5]]" by simp
  have a: "is_mat 4 2 [[3, 7], [3, 3], [1, 5], [5, 5]]"
    using 1(2) unfolding e1 ex_cloud_fields .
  have b: "is_mat 1 2 [[3, 7]]"
    using 2(2) unfolding e2 ex_cloud_fields .
  show ?thesis
    by (intro conjI ex_transform_None ex_transform_Some a b)
qed

end
